theory Spec2Isabelle
  imports Main
begin

section \<open>Configuration entries\<close>

text \<open>
  The configuration types are imported by the source files and declared elsewhere; the
  records hold the properties the code reads. An optional property that is absent
  (\<^verbatim>\<open>undefined\<close>) is \<open>None\<close>. The field names are shared with later records, so they are
  written qualified.
\<close>

record CircuitBreakerConfig =
  timeout :: "int option"
  resetTimeout :: "int option"
  maxFailures :: "int option"
  group :: "string list option"

text \<open>The strategy is handed to the middleware loader as it is: a type parameter.\<close>

record 's ApiAuthenticationConfig =
  strategy :: "'s option"
  group :: "string list option"
  use :: "string option"

text \<open>What the logger receives: the message of a call of \<^verbatim>\<open>logger.error\<close>.\<close>

datatype LogEntry = Error string

section \<open>The circuit breaker of express-circuit-breaker.ts\<close>

subsection \<open>State handler\<close>

text \<open>\<^verbatim>\<open>export enum State {OPEN, CLOSED, HALF_OPEN}\<close>\<close>

datatype State = OPEN | CLOSED | HALF_OPEN

text \<open>
  Modelled from the spec: the source declares only the interface \<^verbatim>\<open>StateHandler\<close>; the class
  that implements it (\<^verbatim>\<open>RedisStateHandler\<close>, imported by the pipeline builder) is not among the
  source files. The spec's state store keeps, per path, one of the three states, a failure
  counter and the single-slot flag \<^verbatim>\<open>halfOpenCallPending\<close>.
\<close>

record StateHandler =
  state :: State
  failures :: int
  halfOpenCallPending :: bool

text \<open>
  Modelled from the spec: "Initial state on configure: CLOSED, failure counter zero,
  halfOpenCallPending=false."
\<close>

definition new_StateHandler :: StateHandler where
  "new_StateHandler = \<lparr>state = CLOSED, failures = 0, halfOpenCallPending = False\<rparr>"

text \<open>Modelled from the spec: "State queries (isOpen, isHalfOpen, isClosed) read C1."\<close>

definition stateHandler_isOpen :: "StateHandler \<Rightarrow> bool" where
  "stateHandler_isOpen h = (state h = OPEN)"

definition stateHandler_isHalfOpen :: "StateHandler \<Rightarrow> bool" where
  "stateHandler_isHalfOpen h = (state h = HALF_OPEN)"

definition stateHandler_isClosed :: "StateHandler \<Rightarrow> bool" where
  "stateHandler_isClosed h = (state h = CLOSED)"

text \<open>
  Modelled from the spec: "forceOpen/forceClose/forceHalfOpen are idempotent: they attempt the
  CAS via C1 and short-circuit if the state is already the target." The boolean is the
  method's return value: whether the state changed.
\<close>

definition stateHandler_forceOpen :: "StateHandler \<Rightarrow> bool \<times> StateHandler" where
  "stateHandler_forceOpen h =
     (if state h = OPEN then (False, h) else (True, h\<lparr>state := OPEN\<rparr>))"

text \<open>
  Modelled from the spec: row "OPEN, resetTimeout elapsed, HALF_OPEN: emit halfOpen; clear
  halfOpenCallPending" of the transition table.
\<close>

definition stateHandler_forceHalfOpen :: "StateHandler \<Rightarrow> bool \<times> StateHandler" where
  "stateHandler_forceHalfOpen h =
     (if state h = HALF_OPEN then (False, h)
      else (True, h\<lparr>state := HALF_OPEN, halfOpenCallPending := False\<rparr>))"

text \<open>
  Modelled from the spec: "handleSuccess: force CLOSED (CAS; clears counter)", with the rows
  "CLOSED, handleSuccess, CLOSED: clear failure counter; emit close if state actually
  changed" and "HALF_OPEN, probe handleSuccess, CLOSED: clear counter; clear pending".
\<close>

definition stateHandler_forceClose :: "StateHandler \<Rightarrow> bool \<times> StateHandler" where
  "stateHandler_forceClose h =
     (if state h = CLOSED then (False, h\<lparr>failures := 0\<rparr>)
      else (True, h\<lparr>state := CLOSED, failures := 0, halfOpenCallPending := False\<rparr>))"

text \<open>
  Modelled from the spec: "increment_failures is atomic and returns the post-increment
  count." The first component is the value the returned promise resolves with.
\<close>

definition stateHandler_incrementFailures :: "StateHandler \<Rightarrow> int \<times> StateHandler" where
  "stateHandler_incrementFailures h = (failures h + 1, h\<lparr>failures := failures h + 1\<rparr>)"

subsection \<open>The breaker object\<close>

text \<open>\<^verbatim>\<open>interface Options\<close>: JavaScript numbers, here integers.\<close>

record Options =
  timeout :: int
  resetTimeout :: int
  maxFailures :: int
  stateHandler :: StateHandler

text \<open>The events of the \<^verbatim>\<open>EventEmitter\<close> the class extends; \<^verbatim>\<open>rejected\<close> carries the error's message.\<close>

datatype Event = Ev_open | Ev_close | Ev_halfOpen | Ev_rejected string

text \<open>
  A \<^verbatim>\<open>CircuitBreaker\<close> object together with the part of the event loop it owns: the events
  emitted so far, the pending \<^verbatim>\<open>setTimeout\<close> callbacks of \<^verbatim>\<open>forceOpen\<close> (each with its delay,
  oldest first), and the promises of \<^verbatim>\<open>incrementFailures\<close> whose \<^verbatim>\<open>then\<close> callback has not run yet
  (each with the value it resolves with, oldest first).
\<close>

record CircuitBreaker =
  options :: Options
  emitted :: "Event list"
  resetTimers :: "int list"
  resolving :: "int list"

text \<open>
  One request on its way through the middleware: the fields of \<^verbatim>\<open>res\<close> that the code
  touches and the variables of the closure that \<^verbatim>\<open>invokeApi\<close> creates for it.
  \<^item> \<open>statusCode\<close>: \<^verbatim>\<open>res.statusCode\<close>;
  \<^item> \<open>sent\<close>: the calls that reached the original \<^verbatim>\<open>res.end\<close>, each with the status at that
    moment and the body passed;
  \<^item> \<open>patched\<close>: \<^verbatim>\<open>res.end\<close> is the wrapper installed by \<^verbatim>\<open>invokeApi\<close>;
  \<^item> \<open>operationTimeout\<close>, \<open>timeoutID\<close>: the closure's variables; \<open>timeoutID\<close> is \<open>Some d\<close>
    while the timer of delay \<open>d\<close> is pending;
  \<^item> \<open>forwarded\<close>: how often \<^verbatim>\<open>next()\<close> was called, that is, the downstream handler invoked.
  The model follows one breaker stage per request.
\<close>

record Exchange =
  statusCode :: int
  sent :: "(int \<times> string) list"
  patched :: bool
  operationTimeout :: bool
  timeoutID :: "int option"
  forwarded :: nat

definition new_Exchange :: Exchange where
  "new_Exchange = \<lparr>statusCode = 200, sent = [], patched = False, operationTimeout = False,
     timeoutID = None, forwarded = 0\<rparr>"

definition setHandler :: "StateHandler \<Rightarrow> CircuitBreaker \<Rightarrow> CircuitBreaker" where
  "setHandler h b = b\<lparr>options := (options b)\<lparr>stateHandler := h\<rparr>\<rparr>"

definition emit :: "Event \<Rightarrow> CircuitBreaker \<Rightarrow> CircuitBreaker" where
  "emit e b = b\<lparr>emitted := emitted b @ [e]\<rparr>"

definition isOpen :: "CircuitBreaker \<Rightarrow> bool" where
  "isOpen b = stateHandler_isOpen (stateHandler (options b))"

definition isHalfOpen :: "CircuitBreaker \<Rightarrow> bool" where
  "isHalfOpen b = stateHandler_isHalfOpen (stateHandler (options b))"

definition isClosed :: "CircuitBreaker \<Rightarrow> bool" where
  "isClosed b = stateHandler_isClosed (stateHandler (options b))"

text \<open>
  \<^verbatim>\<open>forceOpen\<close>: returns early when the handler reports no change; otherwise arms the timer
  that will call \<^verbatim>\<open>forceHalfOpen\<close> after \<^verbatim>\<open>resetTimeout\<close> and emits \<^verbatim>\<open>open\<close>.
\<close>

definition forceOpen :: "CircuitBreaker \<Rightarrow> CircuitBreaker" where
  "forceOpen b =
     (case stateHandler_forceOpen (stateHandler (options b)) of
        (changed, h) \<Rightarrow>
          if \<not> changed then setHandler h b
          else emit Ev_open
                 ((setHandler h b)\<lparr>resetTimers := resetTimers b @ [resetTimeout (options b)]\<rparr>))"

definition forceClosed :: "CircuitBreaker \<Rightarrow> CircuitBreaker" where
  "forceClosed b =
     (case stateHandler_forceClose (stateHandler (options b)) of
        (changed, h) \<Rightarrow> if \<not> changed then setHandler h b else emit Ev_close (setHandler h b))"

definition forceHalfOpen :: "CircuitBreaker \<Rightarrow> CircuitBreaker" where
  "forceHalfOpen b =
     (case stateHandler_forceHalfOpen (stateHandler (options b)) of
        (changed, h) \<Rightarrow> if \<not> changed then setHandler h b else emit Ev_halfOpen (setHandler h b))"

text \<open>The constructor stores the options and calls \<^verbatim>\<open>forceClosed\<close>.\<close>

definition new_CircuitBreaker :: "Options \<Rightarrow> CircuitBreaker" where
  "new_CircuitBreaker opts =
     forceClosed \<lparr>options = opts, emitted = [], resetTimers = [], resolving = []\<rparr>"

text \<open>The oldest pending timer of \<^verbatim>\<open>forceOpen\<close> fires: its callback calls \<^verbatim>\<open>forceHalfOpen\<close>.\<close>

definition resetTimer_fires :: "CircuitBreaker \<Rightarrow> CircuitBreaker" where
  "resetTimer_fires b =
     (case resetTimers b of
        [] \<Rightarrow> b
      | d # ds \<Rightarrow> forceHalfOpen (b\<lparr>resetTimers := ds\<rparr>))"

text \<open>
  \<^verbatim>\<open>handleFailure\<close> calls \<^verbatim>\<open>incrementFailures\<close> and registers a \<^verbatim>\<open>then\<close> callback; the callback
  (\<open>handleFailure_then\<close>) runs when the promise resolves (\<open>promise_resolves\<close>), with the
  state of that later moment.
\<close>

definition handleFailure :: "CircuitBreaker \<Rightarrow> CircuitBreaker" where
  "handleFailure b =
     (case stateHandler_incrementFailures (stateHandler (options b)) of
        (numFailures, h) \<Rightarrow> (setHandler h b)\<lparr>resolving := resolving b @ [numFailures]\<rparr>)"

definition handleFailure_then :: "int \<Rightarrow> CircuitBreaker \<Rightarrow> CircuitBreaker" where
  "handleFailure_then numFailures b =
     (if isHalfOpen b \<or> numFailures \<ge> maxFailures (options b) then forceOpen b else b)"

definition promise_resolves :: "CircuitBreaker \<Rightarrow> CircuitBreaker" where
  "promise_resolves b =
     (case resolving b of
        [] \<Rightarrow> b
      | n # ns \<Rightarrow> handleFailure_then n (b\<lparr>resolving := ns\<rparr>))"

definition handleSuccess :: "CircuitBreaker \<Rightarrow> CircuitBreaker" where
  "handleSuccess b = forceClosed b"

text \<open>The original \<^verbatim>\<open>res.end\<close>: the response goes out with the current status.\<close>

definition original_end :: "string \<Rightarrow> Exchange \<Rightarrow> Exchange" where
  "original_end args r = r\<lparr>sent := sent r @ [(statusCode r, args)]\<rparr>"

text \<open>
  A call of \<^verbatim>\<open>res.end(args)\<close>, by the downstream handler or by the breaker itself. While the
  wrapper of \<^verbatim>\<open>invokeApi\<close> is installed, it runs first: unless the timer has fired it clears
  the timer and records the outcome by the status; then it restores the original method and
  calls it.
\<close>

definition res_end :: "string \<Rightarrow> CircuitBreaker \<Rightarrow> Exchange \<Rightarrow> CircuitBreaker \<times> Exchange" where
  "res_end args b r =
     (if patched r then
        (case (if \<not> operationTimeout r then
                 (if statusCode r \<ge> 500
                  then handleFailure
                         (setHandler ((stateHandler (options b))\<lparr>halfOpenCallPending := False\<rparr>) b)
                  else handleSuccess b,
                  r\<lparr>timeoutID := None\<rparr>)
               else (b, r)) of
           (b', r') \<Rightarrow> (b', original_end args (r'\<lparr>patched := False\<rparr>)))
      else (b, original_end args r))"

definition fastFail :: "CircuitBreaker \<Rightarrow> Exchange \<Rightarrow> CircuitBreaker \<times> Exchange" where
  "fastFail b r =
     (case res_end ''CircuitBreaker open'' b (r\<lparr>statusCode := 503\<rparr>) of
        (b', r') \<Rightarrow> (emit (Ev_rejected ''CircuitBreaker open'') b', r'))"

definition handleTimeout :: "CircuitBreaker \<Rightarrow> Exchange \<Rightarrow> CircuitBreaker \<times> Exchange" where
  "handleTimeout b r =
     res_end ''CircuitBreaker timeout'' (handleFailure b) (r\<lparr>statusCode := 504\<rparr>)"

text \<open>
  \<^verbatim>\<open>invokeApi\<close>: a fresh closure (\<^verbatim>\<open>operationTimeout = false\<close>), the timer of
  \<^verbatim>\<open>options.timeout\<close>, the wrapper around \<^verbatim>\<open>res.end\<close>, then \<^verbatim>\<open>next()\<close>.
\<close>

definition invokeApi :: "CircuitBreaker \<Rightarrow> Exchange \<Rightarrow> CircuitBreaker \<times> Exchange" where
  "invokeApi b r =
     (b, r\<lparr>operationTimeout := False, timeoutID := Some (timeout (options b)),
           patched := True, forwarded := Suc (forwarded r)\<rparr>)"

text \<open>The timer of \<^verbatim>\<open>invokeApi\<close> fires; a cleared timer does not.\<close>

definition timeout_fires :: "CircuitBreaker \<Rightarrow> Exchange \<Rightarrow> CircuitBreaker \<times> Exchange" where
  "timeout_fires b r =
     (case timeoutID r of
        None \<Rightarrow> (b, r)
      | Some d \<Rightarrow> handleTimeout b (r\<lparr>operationTimeout := True, timeoutID := None\<rparr>))"

definition middleware :: "CircuitBreaker \<Rightarrow> Exchange \<Rightarrow> CircuitBreaker \<times> Exchange" where
  "middleware b r =
     (if isOpen b \<or> (isHalfOpen b \<and> halfOpenCallPending (stateHandler (options b)))
      then fastFail b r
      else if isHalfOpen b \<and> \<not> halfOpenCallPending (stateHandler (options b))
      then invokeApi
             (setHandler ((stateHandler (options b))\<lparr>halfOpenCallPending := True\<rparr>) b) r
      else invokeApi b r)"


subsection \<open>Requests one after the other\<close>

text \<open>
  What becomes of an admitted request: the downstream handler completes the response with a
  status and a body, or the timer of \<^verbatim>\<open>invokeApi\<close> fires first.
\<close>

datatype Outcome = Responds int string | TimesOut

definition is_failure :: "Outcome \<Rightarrow> bool" where
  "is_failure out = (case out of Responds s body \<Rightarrow> s \<ge> 500 | TimesOut \<Rightarrow> True)"

text \<open>
  One request from arrival to the end: the middleware runs on a fresh exchange; a request
  that was not admitted is over; an admitted one meets its outcome, and then the pending
  promise, if any, resolves.
\<close>

definition request :: "Outcome \<Rightarrow> CircuitBreaker \<Rightarrow> CircuitBreaker \<times> Exchange" where
  "request out b =
     (case middleware b new_Exchange of
        (b1, r1) \<Rightarrow>
          if \<not> patched r1 then (b1, r1)
          else (case (case out of
                        Responds s body \<Rightarrow> res_end body b1 (r1\<lparr>statusCode := s\<rparr>)
                      | TimesOut \<Rightarrow> timeout_fires b1 r1) of
                  (b2, r2) \<Rightarrow> (promise_resolves b2, r2)))"

fun requests :: "Outcome list \<Rightarrow> CircuitBreaker \<Rightarrow> CircuitBreaker" where
  "requests [] b = b"
| "requests (out # outs) b = requests outs (fst (request out b))"

text \<open>Breakers for the examples: \<^verbatim>\<open>maxFailures = 3\<close>, in each of the three states.\<close>

definition example_breaker :: "State \<Rightarrow> bool \<Rightarrow> CircuitBreaker" where
  "example_breaker s pending =
     \<lparr>options = \<lparr>timeout = 100, resetTimeout = 1000, maxFailures = 3,
         stateHandler = \<lparr>state = s, failures = 0, halfOpenCallPending = pending\<rparr>\<rparr>,
      emitted = [], resetTimers = [], resolving = []\<rparr>"


section \<open>The breaker stage of the pipeline (class ApiCircuitBreaker)\<close>

text \<open>
  An element of the array that \<^verbatim>\<open>sortBreakers\<close> works on. The configuration holds objects;
  \<^verbatim>\<open>breakers.push(gen)\<close> appends the array that \<^verbatim>\<open>splice\<close> returned, so the sorted array can
  also hold an array.
\<close>

datatype BreakerEntry = Config CircuitBreakerConfig | Spliced "BreakerEntry list"

text \<open>Property reads: an array has none of the properties, the read gives \<^verbatim>\<open>undefined\<close>.\<close>

definition entry_group :: "BreakerEntry \<Rightarrow> string list option" where
  "entry_group e = (case e of Config c \<Rightarrow> CircuitBreakerConfig.group c | Spliced cs \<Rightarrow> None)"

definition entry_timeout :: "BreakerEntry \<Rightarrow> int option" where
  "entry_timeout e = (case e of Config c \<Rightarrow> CircuitBreakerConfig.timeout c | Spliced cs \<Rightarrow> None)"

definition entry_resetTimeout :: "BreakerEntry \<Rightarrow> int option" where
  "entry_resetTimeout e =
     (case e of Config c \<Rightarrow> CircuitBreakerConfig.resetTimeout c | Spliced cs \<Rightarrow> None)"

definition entry_maxFailures :: "BreakerEntry \<Rightarrow> int option" where
  "entry_maxFailures e =
     (case e of Config c \<Rightarrow> CircuitBreakerConfig.maxFailures c | Spliced cs \<Rightarrow> None)"

text \<open>
  \<^verbatim>\<open>Array.prototype.indexOf\<close>: the first index holding the element, \<open>-1\<close> when there is none.
  JavaScript compares objects by identity, the model by value. Both functions below call
  it with the only element of the array that passes the filter, and every element equal to
  it by value passes the filter too, so the two comparisons find the same index.
\<close>

fun indexOf :: "'a list \<Rightarrow> 'a \<Rightarrow> int" where
  "indexOf [] x = - 1"
| "indexOf (y # ys) x =
     (if y = x then 0 else (let i = indexOf ys x in if i < 0 then - 1 else i + 1))"

text \<open>
  \<^verbatim>\<open>xs.splice(index, 1)\<close>: a negative index counts from the end, an index beyond the end is
  the end. The result is the array of the removed elements and what remains of \<open>xs\<close>.
\<close>

definition splice1 :: "'a list \<Rightarrow> int \<Rightarrow> 'a list \<times> 'a list" where
  "splice1 xs index =
     (let start = (if index < 0 then nat (max (int (length xs) + index) 0)
                   else min (nat index) (length xs))
      in (take 1 (drop start xs), take start xs @ drop (Suc start) xs))"

text \<open>
  \<^verbatim>\<open>sortBreakers\<close>. A \<^verbatim>\<open>group\<close> is an array of names, and every array is truthy, the empty one
  too: the filter keeps the entries whose \<^verbatim>\<open>group\<close> is defined. The result is the array
  returned and the error logged.
\<close>

definition sortBreakers :: "BreakerEntry list \<Rightarrow> string \<Rightarrow> BreakerEntry list \<times> LogEntry list" where
  "sortBreakers breakers path =
     (let generalBreakers = filter (\<lambda>value. if entry_group value \<noteq> None then True else False)
                              breakers
      in if length generalBreakers > 1
         then ([], [Error (''Invalid circuit breaker configuration for api ['' @ path @
                      '']. Conflicting configurations for default group'')])
         else if length generalBreakers > 0
         then (let index = indexOf breakers (hd generalBreakers)
               in if index < int (length breakers) - 1
                  then (case splice1 breakers index of
                          (gen, rest) \<Rightarrow> (rest @ [Spliced gen], []))
                  else (breakers, []))
         else (breakers, []))"

text \<open>\<^verbatim>\<open>v || d\<close> on an optional number: \<^verbatim>\<open>undefined\<close> and \<open>0\<close> are falsy.\<close>

definition or_default :: "int option \<Rightarrow> int \<Rightarrow> int" where
  "or_default v d = (case v of None \<Rightarrow> d | Some x \<Rightarrow> if x = 0 then d else x)"

text \<open>
  \<^verbatim>\<open>BreakerInfo\<close>: the breaker object and, for an entry with a group, the filter compiled
  from the group names.
\<close>

record 'req BreakerInfo =
  circuitBreaker :: CircuitBreaker
  groupValidator :: "('req \<Rightarrow> Exchange \<Rightarrow> bool) option"

text \<open>
  \<^verbatim>\<open>buildMiddleware\<close>: the handler mounted for one \<^verbatim>\<open>BreakerInfo\<close>. The breaker object is
  mutable and shared with the timers, so its current value is an argument, as in
  \<open>middleware\<close>. \<open>next_stage\<close> is the call \<^verbatim>\<open>next()\<close>.
\<close>

definition next_stage :: "CircuitBreaker \<Rightarrow> Exchange \<Rightarrow> CircuitBreaker \<times> Exchange" where
  "next_stage b r = (b, r\<lparr>forwarded := Suc (forwarded r)\<rparr>)"

definition buildMiddleware ::
  "'req BreakerInfo \<Rightarrow> 'req \<Rightarrow> CircuitBreaker \<Rightarrow> Exchange \<Rightarrow> CircuitBreaker \<times> Exchange" where
  "buildMiddleware breakerInfo req b r =
     (case groupValidator breakerInfo of
        Some validator \<Rightarrow> if validator req r then middleware b r else next_stage b r
      | None \<Rightarrow> middleware b r)"

text \<open>
  \<^verbatim>\<open>circuitBreaker(apiRouter, api)\<close>, with \<^verbatim>\<open>api.circuitBreaker\<close>, \<^verbatim>\<open>api.proxy.path\<close> and
  \<^verbatim>\<open>api.group\<close> as arguments and the module \<^verbatim>\<open>Groups\<close>, which is not among the source files,
  as the parameter \<open>buildGroupAllowFilter\<close>. The result is the list of \<^verbatim>\<open>BreakerInfo\<close> whose
  handlers \<^verbatim>\<open>setupMiddlewares\<close> mounts on the router, in this order, and the log. The debug
  output and the event listeners for statistics and handlers are left out.
\<close>

definition breakerInfo_of ::
  "('g \<Rightarrow> string list \<Rightarrow> 'req \<Rightarrow> Exchange \<Rightarrow> bool) \<Rightarrow> 'g \<Rightarrow> BreakerEntry \<Rightarrow> 'req BreakerInfo" where
  "breakerInfo_of buildGroupAllowFilter apiGroup cbConfig =
     \<lparr>circuitBreaker = new_CircuitBreaker
        \<lparr>timeout = or_default (entry_timeout cbConfig) 30000,
         resetTimeout = or_default (entry_resetTimeout cbConfig) 120000,
         maxFailures = or_default (entry_maxFailures cbConfig) 10,
         stateHandler = new_StateHandler\<rparr>,
      groupValidator = (case entry_group cbConfig of
                          Some names \<Rightarrow> Some (buildGroupAllowFilter apiGroup names)
                        | None \<Rightarrow> None)\<rparr>"

definition ApiCircuitBreaker_circuitBreaker ::
  "('g \<Rightarrow> string list \<Rightarrow> 'req \<Rightarrow> Exchange \<Rightarrow> bool) \<Rightarrow> 'g \<Rightarrow> string \<Rightarrow> BreakerEntry list
     \<Rightarrow> 'req BreakerInfo list \<times> LogEntry list" where
  "ApiCircuitBreaker_circuitBreaker buildGroupAllowFilter apiGroup path breakers =
     (case sortBreakers breakers path of
        (sortedBreakers, log) \<Rightarrow>
          (map (breakerInfo_of buildGroupAllowFilter apiGroup) sortedBreakers, log))"


section \<open>The authentication stage of the pipeline (class ApiAuth)\<close>

text \<open>
  \<^verbatim>\<open>sortMiddlewares\<close>. The filter keeps the entries whose \<^verbatim>\<open>group\<close> is not defined.
  \<^verbatim>\<open>middlewares.push(gen[0])\<close> appends the element that \<^verbatim>\<open>splice\<close> removed; the index comes
  from \<^verbatim>\<open>indexOf\<close> on an element of the array, so there always is one.
\<close>

definition sortMiddlewares ::
  "'s ApiAuthenticationConfig list \<Rightarrow> string \<Rightarrow> 's ApiAuthenticationConfig list \<times> LogEntry list" where
  "sortMiddlewares middlewares path =
     (let generalMiddlewares =
            filter (\<lambda>value. if ApiAuthenticationConfig.group value \<noteq> None then False else True)
              middlewares
      in if length generalMiddlewares > 1
         then ([], [Error (''Invalid authentication configuration for api ['' @ path @
                      '']. Conflicting configurations for default group'')])
         else if length generalMiddlewares > 0
         then (let index = indexOf middlewares (hd generalMiddlewares)
               in if index < int (length middlewares) - 1
                  then (case splice1 middlewares index of
                          (gen, rest) \<Rightarrow> (rest @ take 1 gen, []))
                  else (middlewares, []))
         else (middlewares, []))"

text \<open>
  \<^verbatim>\<open>_.defaults(object, source)\<close>: every property of \<open>object\<close> that is \<^verbatim>\<open>undefined\<close> takes the
  value of \<open>source\<close>.
\<close>

definition defaults ::
  "'s ApiAuthenticationConfig \<Rightarrow> 's ApiAuthenticationConfig \<Rightarrow> 's ApiAuthenticationConfig" where
  "defaults object source =
     \<lparr>strategy = (case strategy object of None \<Rightarrow> strategy source | Some v \<Rightarrow> Some v),
      group = (case ApiAuthenticationConfig.group object of
                 None \<Rightarrow> ApiAuthenticationConfig.group source | Some v \<Rightarrow> Some v),
      use = (case use object of None \<Rightarrow> use source | Some v \<Rightarrow> Some v)\<rparr>"

text \<open>
  \<^verbatim>\<open>pipelineConfig.authentication[authentication.use]\<close>: the dictionary is a plain object,
  so a property read finds the object's own entries and, for a name it does not hold, what
  every plain object inherits from \<^verbatim>\<open>Object.prototype\<close>: functions, and under \<^verbatim>\<open>__proto__\<close> the
  prototype itself. All of these are truthy and none has an enumerable property.
\<close>

datatype 'a Property = Own 'a | Inherited | Undefined

definition object_prototype_names :: "string list" where
  "object_prototype_names =
     [''constructor'', ''__defineGetter__'', ''__defineSetter__'', ''hasOwnProperty'',
      ''__lookupGetter__'', ''__lookupSetter__'', ''isPrototypeOf'', ''propertyIsEnumerable'',
      ''toString'', ''valueOf'', ''__proto__'', ''toLocaleString'']"

definition property :: "(string \<rightharpoonup> 'a) \<Rightarrow> string \<Rightarrow> 'a Property" where
  "property dict key =
     (case dict key of
        Some v \<Rightarrow> Own v
      | None \<Rightarrow> if key \<in> set object_prototype_names then Inherited else Undefined)"

text \<open>
  \<^verbatim>\<open>resolveReferences\<close>, with \<^verbatim>\<open>pipelineConfig.authentication\<close> as the second argument: the
  dictionary of the shared entries, or \<open>None\<close> when the pipeline has none. A \<^verbatim>\<open>use\<close> that is
  the empty string is falsy. An inherited property passes the test of the inner \<^verbatim>\<open>if\<close>, and
  \<^verbatim>\<open>_.defaults\<close> with a source that has no enumerable property changes nothing. \<open>Inl\<close> is the
  message of the error thrown.
\<close>

definition resolveReferences ::
  "'s ApiAuthenticationConfig \<Rightarrow> (string \<rightharpoonup> 's ApiAuthenticationConfig) option
     \<Rightarrow> string + 's ApiAuthenticationConfig" where
  "resolveReferences authentication pipelineAuthentication =
     (case (use authentication, pipelineAuthentication) of
        (Some u, Some dict) \<Rightarrow>
          if u = [] then Inr authentication
          else (case property dict u of
                  Own reference \<Rightarrow> Inr (defaults authentication reference)
                | Inherited \<Rightarrow> Inr authentication
                | Undefined \<Rightarrow> Inl (''Invalid reference '' @ u @
                                    ''. There is no configuration for this id.''))
      | _ \<Rightarrow> Inr authentication)"

text \<open>
  A handler mounted on the router, as a function of the request and of what it may change:
  the request log of the request (\<open>None\<close> when \<^verbatim>\<open>getRequestLog\<close> finds none) and the rest of
  the world \<open>'w\<close>. It ends by calling \<^verbatim>\<open>next()\<close> or \<^verbatim>\<open>next(err)\<close>.
\<close>

datatype 'e Next = Next | NextError 'e

record RequestLog =
  authentication :: "string option"

type_synonym ('req, 'e, 'w) handler =
  "'req \<Rightarrow> RequestLog option \<times> 'w \<Rightarrow> 'e Next \<times> RequestLog option \<times> 'w"

text \<open>
  An authenticator of the passport library: it works on the request and the world and
  calls its callback with an error (\<open>Some\<close>) or without.
\<close>

type_synonym ('req, 'e, 'w) authenticator = "'req \<Rightarrow> 'w \<Rightarrow> 'e option \<times> 'w"

definition mark :: "string \<Rightarrow> RequestLog option \<Rightarrow> RequestLog option" where
  "mark v requestLog =
     (case requestLog of None \<Rightarrow> None | Some l \<Rightarrow> Some (l\<lparr>authentication := Some v\<rparr>))"

text \<open>The handler with the callback that marks the request log.\<close>

definition logged_authenticator :: "('req, 'e, 'w) authenticator \<Rightarrow> ('req, 'e, 'w) handler" where
  "logged_authenticator authenticator req s =
     (case s of
        (requestLog, w) \<Rightarrow>
          (case authenticator req w of
             (Some err, w') \<Rightarrow> (NextError err, mark ''fail'' requestLog, w')
           | (None, w') \<Rightarrow> (Next, mark ''success'' requestLog, w')))"

text \<open>The authenticator mounted as it is: its callback is \<^verbatim>\<open>next\<close>.\<close>

definition plain_authenticator :: "('req, 'e, 'w) authenticator \<Rightarrow> ('req, 'e, 'w) handler" where
  "plain_authenticator authenticator req s =
     (case s of
        (requestLog, w) \<Rightarrow>
          (case authenticator req w of
             (Some err, w') \<Rightarrow> (NextError err, requestLog, w')
           | (None, w') \<Rightarrow> (Next, requestLog, w')))"

definition createAuthenticator ::
  "bool \<Rightarrow> ('req, 'e, 'w) authenticator \<Rightarrow> ('req, 'e, 'w) handler" where
  "createAuthenticator isRequestLogEnabled authenticator =
     (if isRequestLogEnabled then logged_authenticator authenticator
      else plain_authenticator authenticator)"

text \<open>\<^verbatim>\<open>createAuthenticatorForGroup\<close>, with the compiled filter \<open>f\<close> as an argument.\<close>

definition createAuthenticatorForGroup ::
  "bool \<Rightarrow> ('req \<Rightarrow> 'w \<Rightarrow> bool) \<Rightarrow> ('req, 'e, 'w) authenticator \<Rightarrow> ('req, 'e, 'w) handler" where
  "createAuthenticatorForGroup isRequestLogEnabled f authenticator =
     (if isRequestLogEnabled
      then (\<lambda>req s. if f req (snd s) then logged_authenticator authenticator req s else (Next, s))
      else (\<lambda>req s. if f req (snd s) then plain_authenticator authenticator req s else (Next, s)))"

text \<open>
  What the class works with and the source files do not hold: the middleware loader
  (\<open>loadMiddleware\<close> throws, \<open>Inl\<close>, or returns a strategy or a falsy value; \<open>getId\<close>), the
  passport library (\<open>authenticate\<close>: the authenticator registered under a key), the module
  \<^verbatim>\<open>Groups\<close> and the request logger's switch.
\<close>

record ('s, 't, 'g, 'req, 'e, 'w) ApiAuth =
  loadMiddleware :: "'s option \<Rightarrow> string + 't option"
  getId :: "'s option \<Rightarrow> string"
  authenticate :: "string \<Rightarrow> ('req, 'e, 'w) authenticator"
  buildGroupAllowFilter :: "'g \<Rightarrow> string list \<Rightarrow> 'req \<Rightarrow> 'w \<Rightarrow> bool"
  isRequestLogEnabled :: bool

text \<open>
  The router and what the configuration leaves behind: the handlers mounted, the strategies
  registered with their keys, the errors logged.
\<close>

record ('t, 'req, 'e, 'w) Router =
  stack :: "('req, 'e, 'w) handler list"
  strategies :: "(string \<times> 't) list"
  logged :: "LogEntry list"

text \<open>The decimal digits of the index, as the template string prints a number.\<close>

fun string_of_nat :: "nat \<Rightarrow> string" where
  "string_of_nat n =
     (if n < 10 then [''0123456789'' ! n]
      else string_of_nat (n div 10) @ [''0123456789'' ! (n mod 10)])"

declare string_of_nat.simps [simp del]

definition configuring_error ::
  "('s, 't, 'g, 'req, 'e, 'w) ApiAuth \<Rightarrow> string \<Rightarrow> 's ApiAuthenticationConfig \<Rightarrow> LogEntry" where
  "configuring_error self path entry =
     Error (''Error configuring Authentication Strategy ['' @
            getId self (strategy entry) @ ''] for path ['' @ path @ '']'')"

text \<open>
  The body of the \<^verbatim>\<open>forEach\<close> in \<^verbatim>\<open>authentication\<close>: one entry (the variable
  \<^verbatim>\<open>authentication\<close>, here \<open>entry\<close>), inside its \<^verbatim>\<open>try\<close>. The debug output is left out.
\<close>

definition configure_entry ::
  "('s, 't, 'g, 'req, 'e, 'w) ApiAuth \<Rightarrow> string \<Rightarrow> string \<Rightarrow> 'g
     \<Rightarrow> (string \<rightharpoonup> 's ApiAuthenticationConfig) option \<Rightarrow> nat \<Rightarrow> 's ApiAuthenticationConfig
     \<Rightarrow> ('t, 'req, 'e, 'w) Router \<Rightarrow> ('t, 'req, 'e, 'w) Router" where
  "configure_entry self apiKey path apiGroup pipelineAuthentication index entry apiRouter =
     (case resolveReferences entry pipelineAuthentication of
        Inl e \<Rightarrow>
          apiRouter\<lparr>logged := logged apiRouter @ [configuring_error self path entry]\<rparr>
      | Inr resolved \<Rightarrow>
          (case loadMiddleware self (strategy resolved) of
             Inl e \<Rightarrow>
               apiRouter\<lparr>logged := logged apiRouter @ [configuring_error self path resolved]\<rparr>
           | Inr None \<Rightarrow>
               apiRouter\<lparr>logged := logged apiRouter @
                  [Error ''Error configuring authenticator. Invalid Strategy'']\<rparr>
           | Inr (Some authStrategy) \<Rightarrow>
               (let key = apiKey @ ''_'' @ string_of_nat index;
                    authenticator = authenticate self key
                in apiRouter
                   \<lparr>stack := stack apiRouter @
                      [case ApiAuthenticationConfig.group resolved of
                         Some names \<Rightarrow>
                           createAuthenticatorForGroup (isRequestLogEnabled self)
                             (buildGroupAllowFilter self apiGroup names) authenticator
                       | None \<Rightarrow> createAuthenticator (isRequestLogEnabled self) authenticator],
                    strategies := strategies apiRouter @ [(key, authStrategy)]\<rparr>)))"

fun configure_entries ::
  "('s, 't, 'g, 'req, 'e, 'w) ApiAuth \<Rightarrow> string \<Rightarrow> string \<Rightarrow> 'g
     \<Rightarrow> (string \<rightharpoonup> 's ApiAuthenticationConfig) option \<Rightarrow> nat \<Rightarrow> 's ApiAuthenticationConfig list
     \<Rightarrow> ('t, 'req, 'e, 'w) Router \<Rightarrow> ('t, 'req, 'e, 'w) Router" where
  "configure_entries self apiKey path apiGroup pipelineAuthentication index [] apiRouter = apiRouter"
| "configure_entries self apiKey path apiGroup pipelineAuthentication index (a # as) apiRouter =
     configure_entries self apiKey path apiGroup pipelineAuthentication (Suc index) as
       (configure_entry self apiKey path apiGroup pipelineAuthentication index a apiRouter)"

text \<open>
  \<^verbatim>\<open>authentication(apiRouter, apiKey, api, pipelineConfig)\<close>, with \<^verbatim>\<open>api.path\<close>, \<^verbatim>\<open>api.group\<close>,
  \<^verbatim>\<open>api.authentication\<close> and \<^verbatim>\<open>pipelineConfig.authentication\<close> as arguments.
\<close>

definition ApiAuth_authentication ::
  "('s, 't, 'g, 'req, 'e, 'w) ApiAuth \<Rightarrow> ('t, 'req, 'e, 'w) Router \<Rightarrow> string \<Rightarrow> string \<Rightarrow> 'g
     \<Rightarrow> 's ApiAuthenticationConfig list \<Rightarrow> (string \<rightharpoonup> 's ApiAuthenticationConfig) option
     \<Rightarrow> ('t, 'req, 'e, 'w) Router" where
  "ApiAuth_authentication self apiRouter apiKey path apiGroup apiAuthentication pipelineAuthentication =
     (case sortMiddlewares apiAuthentication path of
        (authentications, errors) \<Rightarrow>
          configure_entries self apiKey path apiGroup pipelineAuthentication 0 authentications
            (apiRouter\<lparr>logged := logged apiRouter @ errors\<rparr>))"


section \<open>Examples\<close>

text \<open>
  Configuration entries and collaborators for the examples: a default breaker entry and
  breaker entries scoped to a group; an authentication stage whose loader knows every
  strategy, whose authenticators reject the request \<^verbatim>\<open>/secret\<close> and whose group filter
  accepts the request \<^verbatim>\<open>/admin\<close>.
\<close>

definition example_default :: BreakerEntry where
  "example_default = Config \<lparr>CircuitBreakerConfig.timeout = Some 100,
     CircuitBreakerConfig.resetTimeout = None, CircuitBreakerConfig.maxFailures = Some 3,
     CircuitBreakerConfig.group = None\<rparr>"

definition example_scoped :: "string \<Rightarrow> BreakerEntry" where
  "example_scoped name = Config \<lparr>CircuitBreakerConfig.timeout = None,
     CircuitBreakerConfig.resetTimeout = None, CircuitBreakerConfig.maxFailures = None,
     CircuitBreakerConfig.group = Some [name]\<rparr>"

definition example_ApiAuth :: "(string, string, unit, string, string, unit) ApiAuth" where
  "example_ApiAuth =
     \<lparr>loadMiddleware = (\<lambda>s. Inr s),
      getId = (\<lambda>s. case s of None \<Rightarrow> ''undefined'' | Some n \<Rightarrow> n),
      authenticate = (\<lambda>key req w. (if req = ''/secret'' then Some ''Unauthorized'' else None, w)),
      buildGroupAllowFilter = (\<lambda>g names req w. req = ''/admin''),
      isRequestLogEnabled = True\<rparr>"

definition example_Router :: "(string, string, string, unit) Router" where
  "example_Router = \<lparr>stack = [], strategies = [], logged = []\<rparr>"

definition example_entry :: "string option \<Rightarrow> string list option \<Rightarrow> string option
    \<Rightarrow> string ApiAuthenticationConfig" where
  "example_entry s g u = \<lparr>strategy = s, group = g, use = u\<rparr>"

definition example_BreakerInfo :: "string BreakerInfo" where
  "example_BreakerInfo =
     \<lparr>circuitBreaker = example_breaker CLOSED False,
      groupValidator = Some (\<lambda>req r. req = ''/admin'')\<rparr>"

text \<open>
  An authenticator that counts its runs in the world and rejects every request but the one
  with the token, and the filter of a group of the requests under \<^verbatim>\<open>/admin\<close>.
\<close>

definition example_authenticator :: "(string, string, nat) authenticator" where
  "example_authenticator req w =
     (if req = ''/admin?token=1'' then None else Some ''Unauthorized'', Suc w)"

definition example_filter :: "string \<Rightarrow> nat \<Rightarrow> bool" where
  "example_filter req w = (take 6 req = ''/admin'')"

section \<open>Properties of the circuit breaker\<close>

lemmas cb_defs = middleware_def fastFail_def invokeApi_def res_end_def original_end_def
  isOpen_def isHalfOpen_def isClosed_def stateHandler_isOpen_def stateHandler_isHalfOpen_def
  stateHandler_isClosed_def setHandler_def emit_def handleFailure_def handleFailure_then_def
  promise_resolves_def handleSuccess_def forceOpen_def forceClosed_def forceHalfOpen_def
  stateHandler_forceOpen_def stateHandler_forceClose_def stateHandler_forceHalfOpen_def
  stateHandler_incrementFailures_def handleTimeout_def timeout_fires_def

lemma request_failure_closed:
  assumes "state (stateHandler (options b)) = CLOSED" and "resolving b = []"
    and "is_failure out"
  shows "fst (request out b) =
     (if failures (stateHandler (options b)) + 1 \<ge> maxFailures (options b)
      then forceOpen else id)
      (setHandler ((stateHandler (options b))\<lparr>failures := failures (stateHandler (options b)) + 1,
           halfOpenCallPending := (case out of TimesOut \<Rightarrow> halfOpenCallPending (stateHandler (options b)) | _ \<Rightarrow> False)\<rparr>) b)"
  using assms
  by (cases out) (auto simp: request_def is_failure_def new_Exchange_def cb_defs split: if_splits)


lemma requests_failures_below:
  assumes "state (stateHandler (options b)) = CLOSED" and "resolving b = []"
    and "\<forall>out \<in> set outs. is_failure out"
    and "failures (stateHandler (options b)) + int (length outs) < maxFailures (options b)"
  shows "state (stateHandler (options (requests outs b))) = CLOSED
       \<and> resolving (requests outs b) = []
       \<and> failures (stateHandler (options (requests outs b)))
           = failures (stateHandler (options b)) + int (length outs)
       \<and> maxFailures (options (requests outs b)) = maxFailures (options b)
       \<and> resetTimeout (options (requests outs b)) = resetTimeout (options b)
       \<and> emitted (requests outs b) = emitted b
       \<and> resetTimers (requests outs b) = resetTimers b"
  using assms
proof (induction outs arbitrary: b)
  case Nil
  then show ?case by simp
next
  case (Cons out outs)
  let ?b1 = "fst (request out b)"
  have f: "is_failure out" using Cons.prems(3) by simp
  have lt: "\<not> failures (stateHandler (options b)) + 1 \<ge> maxFailures (options b)"
    using Cons.prems(4) by simp
  have b1: "?b1 = setHandler ((stateHandler (options b))\<lparr>failures := failures (stateHandler (options b)) + 1,
           halfOpenCallPending := (case out of TimesOut \<Rightarrow> halfOpenCallPending (stateHandler (options b)) | _ \<Rightarrow> False)\<rparr>) b"
    using request_failure_closed [OF Cons.prems(1) Cons.prems(2) f] lt by simp
  have s1: "state (stateHandler (options ?b1)) = CLOSED"
    and r1: "resolving ?b1 = []"
    and f1: "failures (stateHandler (options ?b1)) = failures (stateHandler (options b)) + 1"
    and m1: "maxFailures (options ?b1) = maxFailures (options b)"
    and t1: "resetTimeout (options ?b1) = resetTimeout (options b)"
    and e1: "emitted ?b1 = emitted b" and rt1: "resetTimers ?b1 = resetTimers b"
    using Cons.prems(1,2) by (simp_all add: b1 setHandler_def)
  have a1: "\<forall>out \<in> set outs. is_failure out" using Cons.prems(3) by simp
  have l1: "failures (stateHandler (options ?b1)) + int (length outs) < maxFailures (options ?b1)"
    using Cons.prems(4) f1 m1 by simp
  from Cons.IH [OF s1 r1 a1 l1] show ?case
    by (simp add: f1 m1 t1 e1 rt1)
qed

lemma requests_snoc: "requests (outs @ [out]) b = fst (request out (requests outs b))"
  by (induction outs arbitrary: b) simp_all

lemma request_admitted_closed:
  assumes "state (stateHandler (options b)) = CLOSED"
  shows "forwarded (snd (request out b)) = 1"
  using assms
  by (cases out) (auto simp: request_def new_Exchange_def cb_defs split: if_splits prod.splits)

lemma request_rejected_open:
  assumes "state (stateHandler (options b)) = OPEN"
  shows "forwarded (snd (request out b)) = 0
       \<and> sent (snd (request out b)) = [(503, ''CircuitBreaker open'')]"
  using assms
  by (cases out) (auto simp: request_def new_Exchange_def cb_defs split: if_splits prod.splits)

lemma handleFailure_resolved:
  assumes "resolving b = []"
  shows "promise_resolves (handleFailure b) =
     (if failures (stateHandler (options b)) + 1 \<ge> maxFailures (options b)
         \<or> state (stateHandler (options b)) = HALF_OPEN
      then forceOpen else id)
       (setHandler ((stateHandler (options b))\<lparr>failures := failures (stateHandler (options b)) + 1\<rparr>) b)"
  using assms by (auto simp: cb_defs)

lemma forceOpen_effect:
  "state (stateHandler (options (forceOpen b))) = OPEN
   \<and> failures (stateHandler (options (forceOpen b))) = failures (stateHandler (options b))
   \<and> emitted (forceOpen b) =
       (if state (stateHandler (options b)) \<noteq> OPEN then emitted b @ [Ev_open] else emitted b)
   \<and> resetTimers (forceOpen b) =
       (if state (stateHandler (options b)) \<noteq> OPEN
        then resetTimers b @ [resetTimeout (options b)] else resetTimers b)"
  by (simp add: cb_defs)

lemma requests_failures_at:
  assumes c: "state (stateHandler (options b)) = CLOSED" and r: "resolving b = []"
    and z: "failures (stateHandler (options b)) = 0"
    and f: "\<forall>out \<in> set outs. is_failure out"
    and l: "int (length outs) = maxFailures (options b)" and m: "0 < maxFailures (options b)"
  shows "state (stateHandler (options (requests outs b))) = OPEN
       \<and> emitted (requests outs b) = emitted b @ [Ev_open]"
proof -
  from l m have "outs \<noteq> []" by auto
  then obtain pre out where o: "outs = pre @ [out]"
    by (metis rev_exhaust)
  let ?b1 = "requests pre b"
  have fp: "\<forall>out \<in> set pre. is_failure out" and fo: "is_failure out" using f o by auto
  have lp: "failures (stateHandler (options b)) + int (length pre) < maxFailures (options b)"
    using l o z by simp
  note inv = requests_failures_below [OF c r fp lp]
  have s1: "state (stateHandler (options ?b1)) = CLOSED" and r1: "resolving ?b1 = []"
    using inv by simp_all
  have ge: "failures (stateHandler (options ?b1)) + 1 \<ge> maxFailures (options ?b1)"
    using inv l o z by simp
  have "fst (request out ?b1) =
     forceOpen (setHandler ((stateHandler (options ?b1))\<lparr>failures := failures (stateHandler (options ?b1)) + 1,
           halfOpenCallPending := (case out of TimesOut \<Rightarrow> halfOpenCallPending (stateHandler (options ?b1)) | _ \<Rightarrow> False)\<rparr>) ?b1)"
    using request_failure_closed [OF s1 r1 fo] ge by simp
  then have "requests outs b = forceOpen (setHandler ((stateHandler (options ?b1))\<lparr>failures := failures (stateHandler (options ?b1)) + 1,
           halfOpenCallPending := (case out of TimesOut \<Rightarrow> halfOpenCallPending (stateHandler (options ?b1)) | _ \<Rightarrow> False)\<rparr>) ?b1)"
    by (simp add: o requests_snoc)
  then show ?thesis
    using inv s1 by (simp add: forceOpen_effect setHandler_def)
qed

lemma example_admitted:
  "\<not> patched new_Exchange"
  "\<not> (isOpen (example_breaker CLOSED False) \<or>
      (isHalfOpen (example_breaker CLOSED False) \<and>
       halfOpenCallPending (stateHandler (options (example_breaker CLOSED False)))))"
  "middleware (example_breaker CLOSED False) new_Exchange =
     (example_breaker CLOSED False,
      new_Exchange\<lparr>operationTimeout := False, timeoutID := Some 100, patched := True,
        forwarded := 1\<rparr>)"
  by (simp_all add: new_Exchange_def example_breaker_def cb_defs)

text \<open>
  Claim C1. A request that arrives while the breaker is OPEN, or HALF_OPEN with
  \<^verbatim>\<open>halfOpenCallPending\<close> set, is answered 503 with the body "CircuitBreaker open", the event
  \<^verbatim>\<open>rejected\<close> is emitted and the downstream handler is not invoked; in HALF_OPEN without a
  pending call the flag is set and the request goes on as the probe; in CLOSED the request
  goes on and the breaker is unchanged.
\<close>

theorem middleware_admission:
  assumes "\<not> patched r" and "middleware b r = (b', r')"
  shows "(state (stateHandler (options b)) = OPEN \<or>
          (state (stateHandler (options b)) = HALF_OPEN \<and> halfOpenCallPending (stateHandler (options b)))
          \<longrightarrow> statusCode r' = 503 \<and> sent r' = sent r @ [(503, ''CircuitBreaker open'')]
              \<and> emitted b' = emitted b @ [Ev_rejected ''CircuitBreaker open'']
              \<and> forwarded r' = forwarded r \<and> options b' = options b
              \<and> timeoutID r' = timeoutID r \<and> \<not> patched r')
       \<and> (state (stateHandler (options b)) = HALF_OPEN \<and> \<not> halfOpenCallPending (stateHandler (options b))
          \<longrightarrow> b' = setHandler ((stateHandler (options b))\<lparr>halfOpenCallPending := True\<rparr>) b
              \<and> forwarded r' = Suc (forwarded r) \<and> sent r' = sent r \<and> statusCode r' = statusCode r)
       \<and> (state (stateHandler (options b)) = CLOSED
          \<longrightarrow> b' = b \<and> forwarded r' = Suc (forwarded r) \<and> sent r' = sent r \<and> statusCode r' = statusCode r)"
  using assms by (auto simp: cb_defs split: if_splits)

theorem middleware_admission_witness:
  "statusCode (snd (middleware (example_breaker OPEN False) new_Exchange)) = 503
   \<and> sent (snd (middleware (example_breaker HALF_OPEN True) new_Exchange)) = [(503, ''CircuitBreaker open'')]
   \<and> halfOpenCallPending (stateHandler (options (fst (middleware (example_breaker HALF_OPEN False) new_Exchange))))
   \<and> forwarded (snd (middleware (example_breaker HALF_OPEN False) new_Exchange)) = 1
   \<and> fst (middleware (example_breaker CLOSED False) new_Exchange) = example_breaker CLOSED False
   \<and> forwarded (snd (middleware (example_breaker CLOSED False) new_Exchange)) = 1"
proof -
  have p: "\<not> patched new_Exchange" by (simp add: new_Exchange_def)
  have e: "\<And>b. middleware b new_Exchange = (fst (middleware b new_Exchange), snd (middleware b new_Exchange))"
    by simp
  show ?thesis
    using middleware_admission [OF p e [of "example_breaker OPEN False"]]
      middleware_admission [OF p e [of "example_breaker HALF_OPEN True"]]
      middleware_admission [OF p e [of "example_breaker HALF_OPEN False"]]
      middleware_admission [OF p e [of "example_breaker CLOSED False"]]
    by (simp add: example_breaker_def new_Exchange_def setHandler_def)
qed

text \<open>
  Claim C2. A call of \<^verbatim>\<open>handleFailure\<close> increments the failure counter through the state
  handler, and when its promise resolves the breaker is forced OPEN exactly when the count
  after the increment has reached \<^verbatim>\<open>maxFailures\<close> or the state is HALF_OPEN. So, from CLOSED
  with the counter at zero, any run of failed requests shorter than \<^verbatim>\<open>maxFailures\<close> leaves
  the breaker CLOSED and the next request is forwarded, and a run of exactly \<^verbatim>\<open>maxFailures\<close>
  failed requests leaves it OPEN.
\<close>

theorem handleFailure_opens:
  assumes "resolving b = []"
  shows "(let h = stateHandler (options b);
              b' = promise_resolves (handleFailure b);
              forced = (failures h + 1 \<ge> maxFailures (options b) \<or> state h = HALF_OPEN)
          in resolving (handleFailure b) = [failures h + 1]
           \<and> failures (stateHandler (options (handleFailure b))) = failures h + 1
           \<and> failures (stateHandler (options b')) = failures h + 1
           \<and> b' = (if forced then forceOpen else id) (setHandler (h\<lparr>failures := failures h + 1\<rparr>) b)
           \<and> state (stateHandler (options b')) = (if forced then OPEN else state h)
           \<and> emitted b' = (if forced \<and> state h \<noteq> OPEN then emitted b @ [Ev_open] else emitted b)
           \<and> resetTimers b' = (if forced \<and> state h \<noteq> OPEN
                                then resetTimers b @ [resetTimeout (options b)] else resetTimers b))
       \<and> (state (stateHandler (options b)) = CLOSED \<and> failures (stateHandler (options b)) = 0
            \<and> 0 < maxFailures (options b)
          \<longrightarrow> (\<forall>outs. (\<forall>out \<in> set outs. is_failure out) \<longrightarrow>
                 (int (length outs) < maxFailures (options b) \<longrightarrow>
                    state (stateHandler (options (requests outs b))) = CLOSED
                  \<and> (\<forall>out. forwarded (snd (request out (requests outs b))) = 1
                          \<and> (is_failure out \<longrightarrow> failures (stateHandler (options (fst (request out (requests outs b))))) = int (length outs) + 1)))
               \<and> (int (length outs) = maxFailures (options b) \<longrightarrow>
                    state (stateHandler (options (requests outs b))) = OPEN
                  \<and> emitted (requests outs b) = emitted b @ [Ev_open]
                  \<and> (\<forall>out. forwarded (snd (request out (requests outs b))) = 0
                          \<and> sent (snd (request out (requests outs b))) = [(503, ''CircuitBreaker open'')]))))"
proof -
  let ?h = "stateHandler (options b)"
  have one: "promise_resolves (handleFailure b) =
     (if failures ?h + 1 \<ge> maxFailures (options b) \<or> state ?h = HALF_OPEN then forceOpen else id)
       (setHandler (?h\<lparr>failures := failures ?h + 1\<rparr>) b)"
    by (rule handleFailure_resolved [OF assms])
  have sync: "resolving (handleFailure b) = [failures ?h + 1]
      \<and> failures (stateHandler (options (handleFailure b))) = failures ?h + 1"
    using assms by (simp add: handleFailure_def stateHandler_incrementFailures_def setHandler_def)
  have first: "(let h = stateHandler (options b);
              b' = promise_resolves (handleFailure b);
              forced = (failures h + 1 \<ge> maxFailures (options b) \<or> state h = HALF_OPEN)
          in resolving (handleFailure b) = [failures h + 1]
           \<and> failures (stateHandler (options (handleFailure b))) = failures h + 1
           \<and> failures (stateHandler (options b')) = failures h + 1
           \<and> b' = (if forced then forceOpen else id) (setHandler (h\<lparr>failures := failures h + 1\<rparr>) b)
           \<and> state (stateHandler (options b')) = (if forced then OPEN else state h)
           \<and> emitted b' = (if forced \<and> state h \<noteq> OPEN then emitted b @ [Ev_open] else emitted b)
           \<and> resetTimers b' = (if forced \<and> state h \<noteq> OPEN
                                then resetTimers b @ [resetTimeout (options b)] else resetTimers b))"
    unfolding Let_def one using sync by (simp add: forceOpen_effect setHandler_def)
  have second: "state (stateHandler (options b)) = CLOSED \<and> failures (stateHandler (options b)) = 0
            \<and> 0 < maxFailures (options b)
          \<longrightarrow> (\<forall>outs. (\<forall>out \<in> set outs. is_failure out) \<longrightarrow>
                 (int (length outs) < maxFailures (options b) \<longrightarrow>
                    state (stateHandler (options (requests outs b))) = CLOSED
                  \<and> (\<forall>out. forwarded (snd (request out (requests outs b))) = 1
                          \<and> (is_failure out \<longrightarrow> failures (stateHandler (options (fst (request out (requests outs b))))) = int (length outs) + 1)))
               \<and> (int (length outs) = maxFailures (options b) \<longrightarrow>
                    state (stateHandler (options (requests outs b))) = OPEN
                  \<and> emitted (requests outs b) = emitted b @ [Ev_open]
                  \<and> (\<forall>out. forwarded (snd (request out (requests outs b))) = 0
                          \<and> sent (snd (request out (requests outs b))) = [(503, ''CircuitBreaker open'')])))"
  proof (intro impI allI conjI; (elim conjE)?)
    fix outs
    assume c: "state (stateHandler (options b)) = CLOSED"
      and z: "failures (stateHandler (options b)) = 0"
      and f: "\<forall>out \<in> set outs. is_failure out"
      and l: "int (length outs) < maxFailures (options b)"
    have lp: "failures (stateHandler (options b)) + int (length outs) < maxFailures (options b)"
      using l z by simp
    note inv = requests_failures_below [OF c assms f lp]
    show "state (stateHandler (options (requests outs b))) = CLOSED" using inv by simp
    fix out
    show "forwarded (snd (request out (requests outs b))) = 1"
      using request_admitted_closed inv by blast
    assume fo: "is_failure out"
    have s1: "state (stateHandler (options (requests outs b))) = CLOSED"
      and r1: "resolving (requests outs b) = []" using inv by simp_all
    show "failures (stateHandler (options (fst (request out (requests outs b))))) = int (length outs) + 1"
      unfolding request_failure_closed [OF s1 r1 fo] using inv z
      by (simp add: forceOpen_effect setHandler_def)
  next
    fix outs
    assume c: "state (stateHandler (options b)) = CLOSED"
      and z: "failures (stateHandler (options b)) = 0"
      and m: "0 < maxFailures (options b)"
      and f: "\<forall>out \<in> set outs. is_failure out"
      and l: "int (length outs) = maxFailures (options b)"
    note at = requests_failures_at [OF c assms z f l m]
    show "state (stateHandler (options (requests outs b))) = OPEN" using at by simp
    show "emitted (requests outs b) = emitted b @ [Ev_open]" using at by simp
    fix out
    show "forwarded (snd (request out (requests outs b))) = 0"
      using request_rejected_open at by blast
    show "sent (snd (request out (requests outs b))) = [(503, ''CircuitBreaker open'')]"
      using request_rejected_open at by blast
  qed
  from first second show ?thesis by (rule conjI)
qed

theorem handleFailure_opens_witness:
  "resolving (example_breaker CLOSED False) = []
   \<and> failures (stateHandler (options (promise_resolves (handleFailure (example_breaker CLOSED False))))) = 1
   \<and> state (stateHandler (options (promise_resolves (handleFailure (example_breaker CLOSED False))))) = CLOSED
   \<and> state (stateHandler (options
        (requests [Responds 500 ''upstream error'', TimesOut] (example_breaker CLOSED False)))) = CLOSED
   \<and> state (stateHandler (options
        (requests [Responds 500 ''upstream error'', TimesOut, Responds 503 ''busy'']
           (example_breaker CLOSED False)))) = OPEN"
proof -
  have r: "resolving (example_breaker CLOSED False) = []"
    by (simp add: example_breaker_def)
  note t = handleFailure_opens [OF r]
  have one: "failures (stateHandler (options (promise_resolves (handleFailure (example_breaker CLOSED False))))) = 1
      \<and> state (stateHandler (options (promise_resolves (handleFailure (example_breaker CLOSED False))))) = CLOSED"
  proof -
    have v: "state (stateHandler (options (example_breaker CLOSED False))) = CLOSED"
      "failures (stateHandler (options (example_breaker CLOSED False))) = 0"
      "maxFailures (options (example_breaker CLOSED False)) = 3"
      by (simp_all add: example_breaker_def)
    from t [THEN conjunct1] show ?thesis
      unfolding Let_def v by (simp add: setHandler_def v)
  qed
  have pre: "state (stateHandler (options (example_breaker CLOSED False))) = CLOSED
      \<and> failures (stateHandler (options (example_breaker CLOSED False))) = 0
      \<and> 0 < maxFailures (options (example_breaker CLOSED False))"
    by (simp add: example_breaker_def)
  note all = t [THEN conjunct2, rule_format, OF pre]
  have f2: "\<forall>out \<in> set [Responds 500 ''upstream error'', TimesOut]. is_failure out"
    and f3: "\<forall>out \<in> set [Responds 500 ''upstream error'', TimesOut, Responds 503 ''busy'']. is_failure out"
    by (simp_all add: is_failure_def)
  have l2: "int (length [Responds 500 ''upstream error'', TimesOut]) < maxFailures (options (example_breaker CLOSED False))"
    and l3: "int (length [Responds 500 ''upstream error'', TimesOut, Responds 503 ''busy'']) = maxFailures (options (example_breaker CLOSED False))"
    by (simp_all add: example_breaker_def)
  have two: "state (stateHandler (options
        (requests [Responds 500 ''upstream error'', TimesOut] (example_breaker CLOSED False)))) = CLOSED"
    using all [of "[Responds 500 ''upstream error'', TimesOut]", THEN conjunct1] f2 l2 by blast
  have three: "state (stateHandler (options
        (requests [Responds 500 ''upstream error'', TimesOut, Responds 503 ''busy'']
           (example_breaker CLOSED False)))) = OPEN"
    using all [of "[Responds 500 ''upstream error'', TimesOut, Responds 503 ''busy'']", THEN conjunct2] f3 l3 by blast
  from r one two three show ?thesis by simp
qed

text \<open>
  Claim C5. An admitted request has a timer of \<^verbatim>\<open>options.timeout\<close> armed. When the timer
  fires before the response is completed, the operation is marked as timed out, the
  response goes out with 504 and the body "CircuitBreaker timeout", and \<^verbatim>\<open>handleFailure\<close> is
  called once: the failure counter grows by one.
\<close>

theorem timeout_fires_first:
  assumes "\<not> patched r"
    and "\<not> (isOpen b \<or> (isHalfOpen b \<and> halfOpenCallPending (stateHandler (options b))))"
    and "middleware b r = (b1, r1)"
  shows "timeoutID r1 = Some (timeout (options b)) \<and> \<not> operationTimeout r1
       \<and> forwarded r1 = Suc (forwarded r) \<and> sent r1 = sent r
       \<and> (\<forall>bb s. case timeout_fires bb (r1\<lparr>statusCode := s\<rparr>) of
             (bc, rc) \<Rightarrow>
               operationTimeout rc \<and> timeoutID rc = None
             \<and> statusCode rc = 504 \<and> sent rc = sent r @ [(504, ''CircuitBreaker timeout'')]
             \<and> bc = handleFailure bb
             \<and> failures (stateHandler (options bc)) = failures (stateHandler (options bb)) + 1
             \<and> resolving bc = resolving bb @ [failures (stateHandler (options bb)) + 1]
             \<and> state (stateHandler (options bc)) = state (stateHandler (options bb))
             \<and> emitted bc = emitted bb)"
  using assms by (auto simp: cb_defs split: if_splits)

theorem timeout_fires_first_witness:
  "timeout_fires (example_breaker CLOSED False)
     (snd (middleware (example_breaker CLOSED False) new_Exchange)) =
   (handleFailure (example_breaker CLOSED False),
    \<lparr>statusCode = 504, sent = [(504, ''CircuitBreaker timeout'')], patched = False,
     operationTimeout = True, timeoutID = None, forwarded = 1\<rparr>)
   \<and> failures (stateHandler (options (handleFailure (example_breaker CLOSED False)))) = 1"
  using timeout_fires_first [OF example_admitted, THEN conjunct2, THEN conjunct2,
      THEN conjunct2, THEN conjunct2, rule_format, of "example_breaker CLOSED False" 200]
  by (simp add: new_Exchange_def example_breaker_def cb_defs)

text \<open>
  Claim C6. When the response of an admitted request is completed before the timer fires,
  the timer is cancelled and the status decides: from 500 on, \<^verbatim>\<open>halfOpenCallPending\<close> is
  cleared (in HALF_OPEN as in every other state) and \<^verbatim>\<open>handleFailure\<close> is called; below 500,
  \<^verbatim>\<open>handleSuccess\<close> is called.
\<close>

theorem response_completes_first:
  assumes "\<not> patched r"
    and "\<not> (isOpen b \<or> (isHalfOpen b \<and> halfOpenCallPending (stateHandler (options b))))"
    and "middleware b r = (b1, r1)"
  shows "\<forall>bb s args. case res_end args bb (r1\<lparr>statusCode := s\<rparr>) of
           (bc, rc) \<Rightarrow>
             timeoutID rc = None \<and> timeout_fires bc rc = (bc, rc)
           \<and> sent rc = sent r @ [(s, args)]
           \<and> (s \<ge> 500 \<longrightarrow>
                  bc = handleFailure
                         (setHandler ((stateHandler (options bb))\<lparr>halfOpenCallPending := False\<rparr>) bb)
                \<and> \<not> halfOpenCallPending (stateHandler (options bc))
                \<and> failures (stateHandler (options bc)) = failures (stateHandler (options bb)) + 1
                \<and> resolving bc = resolving bb @ [failures (stateHandler (options bb)) + 1]
                \<and> state (stateHandler (options bc)) = state (stateHandler (options bb)))
           \<and> (s < 500 \<longrightarrow>
                  bc = handleSuccess bb
                \<and> state (stateHandler (options bc)) = CLOSED
                \<and> failures (stateHandler (options bc)) = 0
                \<and> resolving bc = resolving bb)"
  using assms by (auto simp: cb_defs split: if_splits)

theorem response_completes_first_witness:
  "res_end ''fine'' (example_breaker CLOSED False)
     ((snd (middleware (example_breaker CLOSED False) new_Exchange))\<lparr>statusCode := 200\<rparr>) =
   (handleSuccess (example_breaker CLOSED False),
    \<lparr>statusCode = 200, sent = [(200, ''fine'')], patched = False,
     operationTimeout = False, timeoutID = None, forwarded = 1\<rparr>)
   \<and> fst (res_end ''down'' (example_breaker HALF_OPEN True)
     ((snd (middleware (example_breaker CLOSED False) new_Exchange))\<lparr>statusCode := 502\<rparr>)) =
     handleFailure (example_breaker HALF_OPEN False)"
  using response_completes_first [OF example_admitted, rule_format,
      where bb = "example_breaker CLOSED False" and s = 200 and args = "''fine''"]
    response_completes_first [OF example_admitted, rule_format,
      where bb = "example_breaker HALF_OPEN True" and s = 502 and args = "''down''"]
  by (simp add: new_Exchange_def example_breaker_def cb_defs)

text \<open>
  Claim C7. A success closes the breaker and clears the failure counter; \<^verbatim>\<open>close\<close> is emitted
  only when the state was not CLOSED before. The probe of HALF_OPEN is forwarded; when it
  succeeds the breaker is CLOSED with the counter and \<^verbatim>\<open>halfOpenCallPending\<close> cleared and
  \<^verbatim>\<open>close\<close> emitted; when it fails the breaker is OPEN, \<^verbatim>\<open>open\<close> is emitted and a new timer of
  \<^verbatim>\<open>resetTimeout\<close> is armed.
\<close>

theorem probe_outcome:
  "emitted (handleSuccess b) =
     (if state (stateHandler (options b)) = CLOSED then emitted b else emitted b @ [Ev_close])
   \<and> state (stateHandler (options (handleSuccess b))) = CLOSED
   \<and> failures (stateHandler (options (handleSuccess b))) = 0
   \<and> (state (stateHandler (options b)) = HALF_OPEN
        \<and> \<not> halfOpenCallPending (stateHandler (options b)) \<and> resolving b = []
      \<longrightarrow> (\<forall>out. forwarded (snd (request out b)) = 1
            \<and> (\<not> is_failure out \<longrightarrow>
                  state (stateHandler (options (fst (request out b)))) = CLOSED
                \<and> failures (stateHandler (options (fst (request out b)))) = 0
                \<and> \<not> halfOpenCallPending (stateHandler (options (fst (request out b))))
                \<and> emitted (fst (request out b)) = emitted b @ [Ev_close]
                \<and> resetTimers (fst (request out b)) = resetTimers b)
            \<and> (is_failure out \<longrightarrow>
                  state (stateHandler (options (fst (request out b)))) = OPEN
                \<and> emitted (fst (request out b)) = emitted b @ [Ev_open]
                \<and> resetTimers (fst (request out b)) = resetTimers b @ [resetTimeout (options b)])))"
proof -
  have "state (stateHandler (options b)) = HALF_OPEN
        \<and> \<not> halfOpenCallPending (stateHandler (options b)) \<and> resolving b = []
      \<longrightarrow> (\<forall>out. forwarded (snd (request out b)) = 1
            \<and> (\<not> is_failure out \<longrightarrow>
                  state (stateHandler (options (fst (request out b)))) = CLOSED
                \<and> failures (stateHandler (options (fst (request out b)))) = 0
                \<and> \<not> halfOpenCallPending (stateHandler (options (fst (request out b))))
                \<and> emitted (fst (request out b)) = emitted b @ [Ev_close]
                \<and> resetTimers (fst (request out b)) = resetTimers b)
            \<and> (is_failure out \<longrightarrow>
                  state (stateHandler (options (fst (request out b)))) = OPEN
                \<and> emitted (fst (request out b)) = emitted b @ [Ev_open]
                \<and> resetTimers (fst (request out b)) = resetTimers b @ [resetTimeout (options b)]))"
  proof (intro impI allI, elim conjE)
    fix out
    assume "state (stateHandler (options b)) = HALF_OPEN"
      "\<not> halfOpenCallPending (stateHandler (options b))" "resolving b = []"
    then show "forwarded (snd (request out b)) = 1
            \<and> (\<not> is_failure out \<longrightarrow>
                  state (stateHandler (options (fst (request out b)))) = CLOSED
                \<and> failures (stateHandler (options (fst (request out b)))) = 0
                \<and> \<not> halfOpenCallPending (stateHandler (options (fst (request out b))))
                \<and> emitted (fst (request out b)) = emitted b @ [Ev_close]
                \<and> resetTimers (fst (request out b)) = resetTimers b)
            \<and> (is_failure out \<longrightarrow>
                  state (stateHandler (options (fst (request out b)))) = OPEN
                \<and> emitted (fst (request out b)) = emitted b @ [Ev_open]
                \<and> resetTimers (fst (request out b)) = resetTimers b @ [resetTimeout (options b)])"
      by (cases out) (auto simp: request_def is_failure_def new_Exchange_def cb_defs)
  qed
  then show ?thesis by (simp add: cb_defs)
qed

theorem probe_outcome_witness:
  "state (stateHandler (options (fst (request (Responds 200 ''fine'') (example_breaker HALF_OPEN False))))) = CLOSED
   \<and> emitted (fst (request (Responds 200 ''fine'') (example_breaker HALF_OPEN False))) = [Ev_close]
   \<and> state (stateHandler (options (fst (request TimesOut (example_breaker HALF_OPEN False))))) = OPEN
   \<and> resetTimers (fst (request TimesOut (example_breaker HALF_OPEN False))) = [1000]
   \<and> emitted (handleSuccess (example_breaker CLOSED False)) = []"
proof -
  have pre: "state (stateHandler (options (example_breaker HALF_OPEN False))) = HALF_OPEN
        \<and> \<not> halfOpenCallPending (stateHandler (options (example_breaker HALF_OPEN False)))
        \<and> resolving (example_breaker HALF_OPEN False) = []"
    by (simp add: example_breaker_def)
  note p = probe_outcome [of "example_breaker HALF_OPEN False", THEN conjunct2, THEN conjunct2,
      THEN conjunct2, rule_format, OF pre]
  have ok: "\<not> is_failure (Responds 200 ''fine'')" and ko: "is_failure TimesOut"
    by (simp_all add: is_failure_def)
  note s = p [of "Responds 200 ''fine''", THEN conjunct2, THEN conjunct1, rule_format, OF ok]
  note f = p [of TimesOut, THEN conjunct2, THEN conjunct2, rule_format, OF ko]
  note c = probe_outcome [of "example_breaker CLOSED False", THEN conjunct1]
  from s f c show ?thesis by (simp add: example_breaker_def)
qed

text \<open>
  Claim C10. An admitted request records at most one outcome. Once its timer has fired
  (one call of \<^verbatim>\<open>handleFailure\<close>), a later completion of the response is passed to the
  original \<^verbatim>\<open>res.end\<close> and leaves the breaker as it is, whatever its state, and the timer
  cannot fire again. Once the response was completed first, the timer cannot fire and a
  further call of \<^verbatim>\<open>res.end\<close> leaves the breaker as it is.
\<close>

theorem one_outcome_per_request:
  assumes "\<not> patched r"
    and "\<not> (isOpen b \<or> (isHalfOpen b \<and> halfOpenCallPending (stateHandler (options b))))"
    and "middleware b r = (b1, r1)"
  shows "(\<forall>bb s. case timeout_fires bb (r1\<lparr>statusCode := s\<rparr>) of
            (bc, rc) \<Rightarrow>
              bc = handleFailure bb
            \<and> (\<forall>bd s' args. res_end args bd (rc\<lparr>statusCode := s'\<rparr>) =
                  (bd, rc\<lparr>statusCode := s', sent := sent rc @ [(s', args)]\<rparr>))
            \<and> (\<forall>bd. timeout_fires bd rc = (bd, rc)))
       \<and> (\<forall>bb s args. case res_end args bb (r1\<lparr>statusCode := s\<rparr>) of
            (bc, rc) \<Rightarrow>
              (\<forall>bd. timeout_fires bd rc = (bd, rc))
            \<and> (\<forall>bd s' args'. res_end args' bd (rc\<lparr>statusCode := s'\<rparr>) =
                  (bd, rc\<lparr>statusCode := s', sent := sent rc @ [(s', args')]\<rparr>)))"
  using assms by (auto simp: cb_defs split: if_splits)

theorem one_outcome_per_request_witness:
  "res_end ''late'' (example_breaker OPEN False)
     ((snd (timeout_fires (example_breaker CLOSED False)
        (snd (middleware (example_breaker CLOSED False) new_Exchange))))\<lparr>statusCode := 200\<rparr>) =
   (example_breaker OPEN False,
    \<lparr>statusCode = 200, sent = [(504, ''CircuitBreaker timeout''), (200, ''late'')],
     patched = False, operationTimeout = True, timeoutID = None, forwarded = 1\<rparr>)"
  using one_outcome_per_request [OF example_admitted, THEN conjunct1, rule_format,
      where bb = "example_breaker CLOSED False" and s = 200]
  by (simp add: new_Exchange_def example_breaker_def cb_defs)


section \<open>Properties of the pipeline stages\<close>

lemma indexOf_append_fresh:
  "x \<notin> set pre \<Longrightarrow> indexOf (pre @ x # post) x = int (length pre)"
  by (induction pre) (auto simp: Let_def)

lemma splice1_middle:
  "splice1 (pre @ x # post) (int (length pre)) = ([x], pre @ post)"
  by (simp add: splice1_def)

lemma filter_single_split:
  assumes "filter P xs = [g]"
  shows "\<exists>pre post. xs = pre @ g # post \<and> (\<forall>x \<in> set pre. \<not> P x) \<and> P g
            \<and> (\<forall>x \<in> set post. \<not> P x)"
proof -
  from assms obtain pre post where "xs = pre @ g # post" "\<forall>u \<in> set pre. \<not> P u" "P g"
    "[] = filter P post"
    by (auto simp: filter_eq_Cons_iff)
  moreover then have "\<forall>x \<in> set post. \<not> P x"
    by (metis filter_empty_conv)
  ultimately show ?thesis by blast
qed

lemma sortMiddlewares_one:
  assumes "filter (\<lambda>v. ApiAuthenticationConfig.group v = None) middlewares = [g]"
  shows "sortMiddlewares middlewares path =
           (filter (\<lambda>v. ApiAuthenticationConfig.group v \<noteq> None) middlewares @ [g], [])"
proof -
  from filter_single_split [OF assms] obtain pre post where
    xs: "middlewares = pre @ g # post"
    and pre: "\<forall>x \<in> set pre. ApiAuthenticationConfig.group x \<noteq> None"
    and g: "ApiAuthenticationConfig.group g = None"
    and post: "\<forall>x \<in> set post. ApiAuthenticationConfig.group x \<noteq> None"
    by blast
  have fresh: "g \<notin> set pre" using pre g by auto
  have scoped: "filter (\<lambda>v. ApiAuthenticationConfig.group v \<noteq> None) middlewares = pre @ post"
    using pre post g by (simp add: xs)
  have gen: "filter (\<lambda>value. if ApiAuthenticationConfig.group value \<noteq> None then False else True)
       middlewares = [g]"
    using assms by (simp add: if_distrib cong: if_cong)
  show ?thesis
    unfolding sortMiddlewares_def gen Let_def scoped
    by (cases post) (simp_all add: xs indexOf_append_fresh [OF fresh] splice1_middle)
qed

text \<open>
  Claim C3. The claim says that \<^verbatim>\<open>sortBreakers\<close> moves the only entry without a group to
  the end and answers two entries without a group with an error and the empty list. The
  filter of the code keeps the entries that have a group, and \<^verbatim>\<open>push\<close> receives the array
  returned by \<^verbatim>\<open>splice\<close>. So a default entry in front of a scoped one stays in front; a
  scoped entry in front of a default one is moved to the end, wrapped in an array; two
  default entries are accepted without an error, and both get a breaker; two scoped
  entries are rejected with the error about the default group.
\<close>

theorem sortBreakers_default_not_last:
  "sortBreakers [example_default, example_scoped ''admins''] ''/api'' =
     ([example_default, example_scoped ''admins''], [])
   \<and> sortBreakers [example_scoped ''admins'', example_default] ''/api'' =
     ([example_default, Spliced [example_scoped ''admins'']], [])
   \<and> sortBreakers [example_default, example_default] ''/api'' =
     ([example_default, example_default], [])
   \<and> sortBreakers [example_scoped ''admins'', example_scoped ''users''] ''/api'' =
     ([], [Error ''Invalid circuit breaker configuration for api [/api]. Conflicting configurations for default group''])
   \<and> length (fst (ApiCircuitBreaker_circuitBreaker (\<lambda>g names req r. req = ''/admin'') () ''/api''
        [example_default, example_default])) = 2
   \<and> map (\<lambda>info. Options.maxFailures (options (circuitBreaker info)))
        (fst (ApiCircuitBreaker_circuitBreaker (\<lambda>g names req r. req = ''/admin'') () ''/api''
           [example_default, example_default])) = [3, 3]"
  by (simp add: sortBreakers_def example_default_def example_scoped_def entry_group_def
      splice1_def Let_def ApiCircuitBreaker_circuitBreaker_def breakerInfo_of_def
      entry_maxFailures_def or_default_def new_CircuitBreaker_def forceClosed_def
      stateHandler_forceClose_def new_StateHandler_def setHandler_def)

text \<open>
  Claim C4. \<^verbatim>\<open>sortMiddlewares\<close> takes the entries without a group as the general ones. With
  more than one of them it logs the conflict and returns the empty list, and
  \<^verbatim>\<open>authentication\<close> then mounts no handler, registers no strategy and only logs that error.
  With exactly one it returns the scoped entries in their order, followed by the general
  one. With none the list is returned as it is.
\<close>

theorem sortMiddlewares_general_last:
  "(let general = filter (\<lambda>v. ApiAuthenticationConfig.group v = None) middlewares;
        scoped = filter (\<lambda>v. ApiAuthenticationConfig.group v \<noteq> None) middlewares;
        conflict = Error (''Invalid authentication configuration for api ['' @ path @
                      '']. Conflicting configurations for default group'')
    in (length general > 1 \<longrightarrow>
          sortMiddlewares middlewares path = ([], [conflict])
        \<and> ApiAuth_authentication self apiRouter apiKey path apiGroup middlewares pipelineAuthentication
            = apiRouter\<lparr>logged := logged apiRouter @ [conflict]\<rparr>)
     \<and> (length general = 1 \<longrightarrow> sortMiddlewares middlewares path = (scoped @ general, []))
     \<and> (general = [] \<longrightarrow> sortMiddlewares middlewares path = (middlewares, [])))"
proof -
  let ?general = "filter (\<lambda>v. ApiAuthenticationConfig.group v = None) middlewares"
  have gen: "filter (\<lambda>value. if ApiAuthenticationConfig.group value \<noteq> None then False else True)
       middlewares = ?general"
    by simp
  have many: "length ?general > 1 \<Longrightarrow> sortMiddlewares middlewares path =
      ([], [Error (''Invalid authentication configuration for api ['' @ path @
                      '']. Conflicting configurations for default group'')])"
    unfolding sortMiddlewares_def gen Let_def by simp
  have none: "?general = [] \<Longrightarrow> sortMiddlewares middlewares path = (middlewares, [])"
    unfolding sortMiddlewares_def gen Let_def by simp
  have one: "length ?general = 1 \<Longrightarrow> sortMiddlewares middlewares path =
      (filter (\<lambda>v. ApiAuthenticationConfig.group v \<noteq> None) middlewares @ ?general, [])"
  proof -
    assume "length ?general = 1"
    then obtain g where g: "?general = [g]"
      by (cases ?general) auto
    show ?thesis unfolding g by (rule sortMiddlewares_one [OF g])
  qed
  show ?thesis
    unfolding Let_def using many none one
    by (auto simp: ApiAuth_authentication_def)
qed

theorem sortMiddlewares_general_last_witness:
  "sortMiddlewares [example_entry (Some ''jwt'') None None,
       example_entry (Some ''basic'') (Some [''admins'']) None,
       example_entry (Some ''local'') (Some []) None] ''/api'' =
     ([example_entry (Some ''basic'') (Some [''admins'']) None,
       example_entry (Some ''local'') (Some []) None,
       example_entry (Some ''jwt'') None None], [])
   \<and> ApiAuth_authentication example_ApiAuth example_Router ''api'' ''/api'' ()
        [example_entry (Some ''jwt'') None None, example_entry (Some ''basic'') None None] None =
      example_Router\<lparr>logged := [Error ''Invalid authentication configuration for api [/api]. Conflicting configurations for default group'']\<rparr>"
  using sortMiddlewares_general_last [of "[example_entry (Some ''jwt'') None None,
       example_entry (Some ''basic'') (Some [''admins'']) None,
       example_entry (Some ''local'') (Some []) None]" "''/api''" example_ApiAuth example_Router "''api''" "()" None]
    sortMiddlewares_general_last [of "[example_entry (Some ''jwt'') None None,
       example_entry (Some ''basic'') None None]" "''/api''" example_ApiAuth example_Router "''api''" "()" None]
  by (simp add: example_entry_def example_Router_def Let_def)

lemma middleware_not_bypass:
  assumes "\<not> patched r"
  shows "middleware b r \<noteq> next_stage b r"
  using assms
  by (auto simp: next_stage_def middleware_def fastFail_def invokeApi_def res_end_def
      original_end_def emit_def setHandler_def split: if_splits
      dest: arg_cong [where f = patched] arg_cong [where f = sent])

text \<open>
  The two gates as the source writes them. A breaker stage that has a group validator runs
  the breaker's middleware when the validator accepts the request, and otherwise calls
  \<^verbatim>\<open>next()\<close> and changes nothing else; on a request that no breaker has intercepted yet the
  two results differ, so the middleware has run exactly when the validator accepted. An
  authentication handler for a group runs the authenticator when the filter accepts the
  request, passes its error or its success on and marks the request log when request logs
  are enabled; otherwise it calls \<^verbatim>\<open>next()\<close> and leaves the request log and the world as they
  were. An entry whose resolved configuration names a group gets this handler.
\<close>

lemma buildMiddleware_gate:
  assumes "groupValidator breakerInfo = Some validator"
  shows "buildMiddleware breakerInfo req b r =
           (if validator req r then middleware b r
            else (b, r\<lparr>forwarded := Suc (forwarded r)\<rparr>))"
    and "\<not> patched r \<Longrightarrow>
           (buildMiddleware breakerInfo req b r = middleware b r) = validator req r"
  using assms middleware_not_bypass [of r b]
  by (auto simp: buildMiddleware_def next_stage_def)

lemma createAuthenticatorForGroup_gate:
  "createAuthenticatorForGroup enabled f authenticator rq (requestLog, w) =
     (if f rq w
      then (case authenticator rq w of
              (Some err, w') \<Rightarrow>
                (NextError err, if enabled then mark ''fail'' requestLog else requestLog, w')
            | (None, w') \<Rightarrow>
                (Next, if enabled then mark ''success'' requestLog else requestLog, w'))
      else (Next, requestLog, w))"
  by (simp add: createAuthenticatorForGroup_def logged_authenticator_def
      plain_authenticator_def split: prod.splits option.splits)

lemma configure_entry_group:
  assumes "resolveReferences entry pipelineAuthentication = Inr resolved"
    and "loadMiddleware self (strategy resolved) = Inr (Some authStrategy)"
    and "ApiAuthenticationConfig.group resolved = Some names"
  shows "stack (configure_entry self apiKey path apiGroup pipelineAuthentication index entry apiRouter)
          = stack apiRouter @
             [createAuthenticatorForGroup (isRequestLogEnabled self)
                (buildGroupAllowFilter self apiGroup names)
                (authenticate self (apiKey @ ''_'' @ string_of_nat index))]"
  using assms by (simp add: configure_entry_def Let_def)

lemma group_gate_examples:
  "createAuthenticatorForGroup True example_filter example_authenticator ''/admin/users''
       (Some \<lparr>authentication = None\<rparr>, 0) =
     (NextError ''Unauthorized'', Some \<lparr>authentication = Some ''fail''\<rparr>, 1)"
  "createAuthenticatorForGroup True example_filter example_authenticator ''/admin?token=1''
       (Some \<lparr>authentication = None\<rparr>, 0) =
     (Next, Some \<lparr>authentication = Some ''success''\<rparr>, 1)"
  "createAuthenticatorForGroup False example_filter example_authenticator ''/admin/users''
       (Some \<lparr>authentication = None\<rparr>, 0) =
     (NextError ''Unauthorized'', Some \<lparr>authentication = None\<rparr>, 1)"
  "createAuthenticatorForGroup True example_filter example_authenticator ''/public''
       (Some \<lparr>authentication = None\<rparr>, 0) =
     (Next, Some \<lparr>authentication = None\<rparr>, 0)"
  "buildMiddleware example_BreakerInfo ''/admin'' (example_breaker OPEN False) new_Exchange =
     middleware (example_breaker OPEN False) new_Exchange"
  "buildMiddleware example_BreakerInfo ''/public'' (example_breaker OPEN False) new_Exchange =
     (example_breaker OPEN False, new_Exchange\<lparr>forwarded := 1\<rparr>)"
  by (simp_all add: createAuthenticatorForGroup_gate example_filter_def
      example_authenticator_def mark_def buildMiddleware_def next_stage_def
      example_BreakerInfo_def new_Exchange_def)

text \<open>
  Claim C8. The claim says that the handler of every group-scoped stage, breaker or
  authenticator, runs exactly when the compiled group filter accepts the request. The
  gates above do that for a stage that has its filter. The breaker pipeline, however,
  loses the filter of a scoped entry that \<^verbatim>\<open>sortBreakers\<close> moves: \<^verbatim>\<open>push\<close> appends the array
  returned by \<^verbatim>\<open>splice\<close>, and an array has no \<^verbatim>\<open>group\<close>, \<^verbatim>\<open>timeout\<close> or \<^verbatim>\<open>maxFailures\<close>. For the
  entries [scoped to the group admins, default] the stage built for the scoped entry has
  no validator and the default options, and on the request \<^verbatim>\<open>/public\<close>, which the filter of
  the group rejects, it runs the breaker's middleware: the timer of 30000 is armed and
  \<^verbatim>\<open>res.end\<close> is wrapped, where the claim has the stage bypassed.
\<close>

theorem scoped_breaker_loses_filter:
  "(let compile = (\<lambda>g names req r. names = [''admins''] \<and> take 6 req = ''/admin'');
        scoped = Config \<lparr>CircuitBreakerConfig.timeout = Some 50,
                   CircuitBreakerConfig.resetTimeout = Some 500,
                   CircuitBreakerConfig.maxFailures = Some 5,
                   CircuitBreakerConfig.group = Some [''admins'']\<rparr>;
        infos = fst (ApiCircuitBreaker_circuitBreaker compile () ''/api''
                       [scoped, example_default]);
        stage = infos ! 1
    in sortBreakers [scoped, example_default] ''/api'' = ([example_default, Spliced [scoped]], [])
     \<and> length infos = 2
     \<and> groupValidator stage = None
     \<and> Options.timeout (options (circuitBreaker stage)) = 30000
     \<and> Options.maxFailures (options (circuitBreaker stage)) = 10
     \<and> \<not> compile () [''admins''] ''/public'' new_Exchange
     \<and> buildMiddleware stage ''/public'' (circuitBreaker stage) new_Exchange =
         middleware (circuitBreaker stage) new_Exchange
     \<and> buildMiddleware stage ''/public'' (circuitBreaker stage) new_Exchange =
         (circuitBreaker stage,
          new_Exchange\<lparr>operationTimeout := False, timeoutID := Some 30000, patched := True,
            forwarded := 1\<rparr>)
     \<and> buildMiddleware stage ''/public'' (circuitBreaker stage) new_Exchange \<noteq>
         next_stage (circuitBreaker stage) new_Exchange)"
  by (simp add: Let_def sortBreakers_def example_default_def entry_group_def
      entry_timeout_def entry_resetTimeout_def entry_maxFailures_def splice1_def
      ApiCircuitBreaker_circuitBreaker_def breakerInfo_of_def or_default_def
      new_CircuitBreaker_def forceClosed_def stateHandler_forceClose_def new_StateHandler_def
      setHandler_def buildMiddleware_def middleware_def invokeApi_def isOpen_def
      isHalfOpen_def stateHandler_isOpen_def stateHandler_isHalfOpen_def next_stage_def
      new_Exchange_def)

lemma configure_entries_append:
  "configure_entries self apiKey path apiGroup pa index (xs @ ys) apiRouter =
     configure_entries self apiKey path apiGroup pa (index + length xs) ys
       (configure_entries self apiKey path apiGroup pa index xs apiRouter)"
  by (induction xs arbitrary: index apiRouter) simp_all

text \<open>
  Claim C9, as stated: a \<^verbatim>\<open>use\<close> without a matching entry of the pipeline raises an error and
  the stage is skipped with an error log. It fails when the pipeline configuration has no
  authentication dictionary at all: the reference is not looked up, nothing is logged and
  the stage is configured from the entry as written.
\<close>

theorem use_reference_ignored_without_dictionary:
  "use (example_entry (Some ''basic'') None (Some ''jwt'')) = Some ''jwt''
   \<and> resolveReferences (example_entry (Some ''basic'') None (Some ''jwt'')) None =
       Inr (example_entry (Some ''basic'') None (Some ''jwt''))
   \<and> logged (ApiAuth_authentication example_ApiAuth example_Router ''api'' ''/api'' ()
        [example_entry (Some ''basic'') None (Some ''jwt'')] None) = []
   \<and> strategies (ApiAuth_authentication example_ApiAuth example_Router ''api'' ''/api'' ()
        [example_entry (Some ''basic'') None (Some ''jwt'')] None) = [(''api_0'', ''basic'')]"
  by (simp add: example_entry_def example_ApiAuth_def example_Router_def resolveReferences_def
      ApiAuth_authentication_def sortMiddlewares_def configure_entry_def Let_def
      string_of_nat.simps)

text \<open>
  A \<^verbatim>\<open>use\<close> that is the name of a property every plain object inherits finds that property
  in the dictionary: no error is raised and the entry stays as it is.
\<close>

lemma resolveReferences_inherited_name:
  "resolveReferences (example_entry (Some ''basic'') None (Some ''constructor'')) (Some Map.empty)
     = Inr (example_entry (Some ''basic'') None (Some ''constructor''))"
  "resolveReferences (example_entry None None (Some ''toString''))
       (Some [''jwt'' \<mapsto> example_entry (Some ''basic'') None None])
     = Inr (example_entry None None (Some ''toString''))"
  by (simp_all add: resolveReferences_def property_def object_prototype_names_def
      example_entry_def)

text \<open>
  Claim C9, amended. When the pipeline configuration has an authentication dictionary, an
  entry with a non-empty \<^verbatim>\<open>use\<close> is completed from the dictionary's entry of that name, its
  own properties winning; when the dictionary has no entry of that name, and the name is
  not one of a property that every plain object inherits, an error is raised and caught
  for this entry alone: it adds one error to the log, mounts and registers nothing, and the
  entries after it are configured with the indices they would have had anyway. When the
  pipeline configuration has no authentication dictionary, the entry is returned as it is
  and no error is raised.
\<close>

theorem resolveReferences_cases:
  "(use entry = Some u \<and> u \<noteq> [] \<and> pipelineAuthentication = Some dict
       \<and> dict u = Some reference
      \<longrightarrow> resolveReferences entry pipelineAuthentication =
            Inr \<lparr>strategy = (case strategy entry of None \<Rightarrow> strategy reference | Some v \<Rightarrow> Some v),
                 group = (case ApiAuthenticationConfig.group entry of
                            None \<Rightarrow> ApiAuthenticationConfig.group reference | Some v \<Rightarrow> Some v),
                 use = Some u\<rparr>)
   \<and> (use entry = Some u \<and> u \<noteq> [] \<and> pipelineAuthentication = Some dict \<and> dict u = None
        \<and> u \<notin> set object_prototype_names
      \<longrightarrow> resolveReferences entry pipelineAuthentication =
            Inl (''Invalid reference '' @ u @ ''. There is no configuration for this id.'')
        \<and> configure_entry self apiKey path apiGroup pipelineAuthentication index entry apiRouter =
            apiRouter\<lparr>logged := logged apiRouter @ [configuring_error self path entry]\<rparr>
        \<and> configure_entries self apiKey path apiGroup pipelineAuthentication index
              (before @ entry # after) apiRouter =
            configure_entries self apiKey path apiGroup pipelineAuthentication
              (Suc (index + length before)) after
              ((configure_entries self apiKey path apiGroup pipelineAuthentication index before
                  apiRouter)
               \<lparr>logged := logged (configure_entries self apiKey path apiGroup
                                    pipelineAuthentication index before apiRouter)
                           @ [configuring_error self path entry]\<rparr>))
   \<and> (pipelineAuthentication = None \<longrightarrow> resolveReferences entry pipelineAuthentication = Inr entry)"
  by (auto simp: resolveReferences_def property_def defaults_def configure_entry_def
      configure_entries_append split: option.splits)

theorem resolveReferences_cases_witness:
  "resolveReferences (example_entry None None (Some ''jwt''))
       (Some [''jwt'' \<mapsto> example_entry (Some ''basic'') (Some [''admins'']) None]) =
     Inr (example_entry (Some ''basic'') (Some [''admins'']) (Some ''jwt''))
   \<and> resolveReferences (example_entry (Some ''local'') (Some [''admins'']) (Some ''missing''))
       (Some Map.empty) =
     Inl ''Invalid reference missing. There is no configuration for this id.''
   \<and> configure_entries example_ApiAuth ''api'' ''/api'' () (Some Map.empty) 0
       [example_entry (Some ''local'') (Some [''admins'']) (Some ''missing''),
        example_entry (Some ''basic'') None None] example_Router =
     configure_entries example_ApiAuth ''api'' ''/api'' () (Some Map.empty) 1
       [example_entry (Some ''basic'') None None]
       (example_Router\<lparr>logged :=
          [Error ''Error configuring Authentication Strategy [local] for path [/api]'']\<rparr>)
   \<and> strategies (configure_entries example_ApiAuth ''api'' ''/api'' () (Some Map.empty) 0
       [example_entry (Some ''local'') (Some [''admins'']) (Some ''missing''),
        example_entry (Some ''basic'') None None] example_Router) = [(''api_1'', ''basic'')]
   \<and> resolveReferences (example_entry (Some ''basic'') None (Some ''jwt'')) None =
     Inr (example_entry (Some ''basic'') None (Some ''jwt''))"
  using resolveReferences_cases [where entry = "example_entry None None (Some ''jwt'')"
      and u = "''jwt''" and dict = "[''jwt'' \<mapsto> example_entry (Some ''basic'') (Some [''admins'']) None]"
      and pipelineAuthentication = "Some [''jwt'' \<mapsto> example_entry (Some ''basic'') (Some [''admins'']) None]"
      and reference = "example_entry (Some ''basic'') (Some [''admins'']) None"
      and self = example_ApiAuth and apiKey = "''api''" and path = "''/api''" and apiGroup = "()"
      and index = 0 and apiRouter = example_Router and before = "[]"
      and after = "[example_entry (Some ''basic'') None None]"]
    resolveReferences_cases [where entry = "example_entry (Some ''local'') (Some [''admins'']) (Some ''missing'')"
      and u = "''missing''" and dict = "Map.empty"
      and pipelineAuthentication = "Some Map.empty"
      and reference = "example_entry (Some ''basic'') (Some [''admins'']) None"
      and self = example_ApiAuth and apiKey = "''api''" and path = "''/api''" and apiGroup = "()"
      and index = 0 and apiRouter = example_Router and before = "[]"
      and after = "[example_entry (Some ''basic'') None None]"]
    resolveReferences_cases [where entry = "example_entry (Some ''basic'') None (Some ''jwt'')"
      and u = "''jwt''" and dict = "Map.empty"
      and pipelineAuthentication = "None"
      and reference = "example_entry (Some ''basic'') (Some [''admins'']) None"
      and self = example_ApiAuth and apiKey = "''api''" and path = "''/api''" and apiGroup = "()"
      and index = 0 and apiRouter = example_Router and before = "[]"
      and after = "[example_entry (Some ''basic'') None None]"]
  by (simp add: example_entry_def example_ApiAuth_def example_Router_def resolveReferences_def
      property_def object_prototype_names_def configure_entry_def configuring_error_def Let_def
      string_of_nat.simps)

end
